theory Spec2Isabelle
  imports Main "HOL-Library.Word"
begin

section \<open>Python values\<close>

text \<open>
  A Python \<open>str\<close> is a sequence of Unicode code points, a \<open>bytes\<close> object a sequence
  of octets. String literals of the source are ASCII except for the en dash (code point
  8211) of the prompt.
\<close>

type_synonym pystr = "nat list"
type_synonym bytes = "8 word list"

definition ascii :: "string \<Rightarrow> pystr" where
  "ascii s = map of_char s"

text \<open>
  \<open>str.isspace\<close> on one code point, as CPython decides it: the ASCII controls 9 to 13
  and 28 to 31, the space, NEL, NBSP and the Unicode space separators.
\<close>

definition isspace :: "nat \<Rightarrow> bool" where
  "isspace c \<longleftrightarrow>
     (9 \<le> c \<and> c \<le> 13) \<or> (28 \<le> c \<and> c \<le> 32) \<or> c = 133 \<or> c = 160 \<or> c = 5760 \<or>
     (8192 \<le> c \<and> c \<le> 8202) \<or> c = 8232 \<or> c = 8233 \<or> c = 8239 \<or> c = 8287 \<or> c = 12288"

text \<open>\<open>str.strip()\<close> with no argument: whitespace is removed at both ends.\<close>

definition strip :: "pystr \<Rightarrow> pystr" where
  "strip s = rev (dropWhile isspace (rev (dropWhile isspace s)))"

text \<open>Truthiness of an \<open>Optional[str]\<close>: \<open>None\<close> and the empty string are false.\<close>

fun truthy :: "pystr option \<Rightarrow> bool" where
  "truthy None = False"
| "truthy (Some k) = (k \<noteq> [])"

section \<open>The external world and the process state\<close>

text \<open>
  A model handle is the object built by \<open>genai.GenerativeModel(name)\<close>. The second
  component is the identity of the object: the number of handles built before it.
\<close>

datatype handle = GenerativeModel (model_name: pystr) (ident: nat)

text \<open>
  One call \<open>model.generate_content([prompt, img], request_options={"timeout": t})\<close>.
\<close>

record 'img call =
  call_handle :: handle
  call_prompt :: pystr
  call_image :: 'img
  call_timeout :: nat

text \<open>
  The libraries the script calls. Each function either raises an exception of type
  \<open>'exc\<close> or returns.
  \<^item> PIL: \<open>Image.open\<close>, which identifies a file by its header and does not read the
    pixels; the \<open>format\<close> attribute of the image it returns; \<open>load\<close>, which reads the
    pixels.
  \<^item> Streamlit: \<open>st.image\<close> on the bytes of an upload.
  \<^item> The Google client: the \<open>generate_content\<close> method of the model, whose outcome
    depends on the key last handed to \<open>genai.configure\<close> (none, if it was never called)
    and on the calls made before; the number of requests it puts on the network while
    it runs; the \<open>text\<close> property of a response.
\<close>

record ('img, 'resp, 'exc) world =
  image_open :: "bytes \<Rightarrow> 'exc + 'img"
  image_format :: "'img \<Rightarrow> pystr"
  image_load :: "'img \<Rightarrow> 'exc option"
  st_image :: "bytes \<Rightarrow> 'exc option"
  generate_content :: "pystr option \<Rightarrow> 'img call list \<Rightarrow> 'img call \<Rightarrow> 'exc + 'resp"
  requests_sent :: "pystr option \<Rightarrow> 'img call list \<Rightarrow> 'img call \<Rightarrow> nat"
  response_text :: "'resp \<Rightarrow> 'exc + pystr"

text \<open>
  What outlives one run of the script: the key handed to \<open>genai.configure\<close>, the cache of
  \<open>st.cache_resource\<close>, and three observations: the handles built, the calls of
  \<open>generate_content\<close>, and the requests put on the network.
\<close>

record 'img process =
  configured :: "pystr option"
  cache :: "handle option"
  constructions :: nat
  calls :: "'img call list"
  network_calls :: nat

definition fresh :: "'img process" where
  "fresh = \<lparr>configured = None, cache = None, constructions = 0, calls = [],
            network_calls = 0\<rparr>"

section \<open>The story generation functions\<close>

text \<open>
  \<open>get_story_model\<close> under the decorator \<open>st.cache_resource\<close>: a function of no
  argument, whose body runs when the cache is empty and whose result is stored and
  returned afterwards.
\<close>

definition get_story_model :: "'img process \<Rightarrow> handle \<times> 'img process" where
  "get_story_model s =
     (case cache s of
        Some h \<Rightarrow> (h, s)
      | None \<Rightarrow>
          (let h = GenerativeModel (ascii ''gemini-1.5-flash'') (constructions s)
           in (h, s\<lparr>cache := Some h, constructions := Suc (constructions s)\<rparr>)))"

text \<open>The f-string of \<open>generate_story_from_image\<close>.\<close>

definition story_prompt :: "pystr \<Rightarrow> pystr" where
  "story_prompt language =
     ascii ''You are an imaginative storyteller. '' @
     ascii ''Look at the image and write a short, vivid narrative (about 3'' @ [8211] @
     ascii ''5 paragraphs). '' @
     ascii ''Write the story entirely in '' @ language @ ascii ''. '' @
     ascii ''Do not describe the task, only tell the story.''"

text \<open>
  \<open>generate_story_from_image\<close>: the handle, the prompt, \<open>Image.open\<close>, one call, the
  stripped text. An exception raised by a library leaves the function at once and is the
  result \<open>Inl\<close>. The function itself reads no key: the library finds the configured one.
\<close>

definition generate_story_from_image ::
  "('img, 'resp, 'exc) world \<Rightarrow> bytes \<Rightarrow> pystr \<Rightarrow> 'img process \<Rightarrow>
     ('exc + pystr) \<times> 'img process"
where
  "generate_story_from_image w image_bytes language s =
     (let (model, s1) = get_story_model s;
          prompt = story_prompt language
      in case image_open w image_bytes of
           Inl e \<Rightarrow> (Inl e, s1)
         | Inr img \<Rightarrow>
             (let c = \<lparr>call_handle = model, call_prompt = prompt, call_image = img,
                       call_timeout = 120\<rparr>;
                  s2 = s1\<lparr>calls := calls s1 @ [c],
                          network_calls := network_calls s1 +
                            requests_sent w (configured s1) (calls s1) c\<rparr>
              in case generate_content w (configured s1) (calls s1) c of
                   Inl e \<Rightarrow> (Inl e, s2)
                 | Inr response \<Rightarrow>
                     (case response_text w response of
                        Inl e \<Rightarrow> (Inl e, s2)
                      | Inr t \<Rightarrow> (Inr (strip t), s2))))"




section \<open>One run of the page script\<close>

text \<open>
  The inputs of a run: what \<open>st.secrets.get("GEMINI_API_KEY", None)\<close> does (it raises
  when there is no secrets file), the uploaded file, the option selected in the radio
  widget and the value returned by \<open>st.button\<close> for a given \<open>disabled\<close> flag.
\<close>

record 'exc page_input =
  secrets_get :: "'exc + pystr option"
  uploaded_file :: "bytes option"
  radio_index :: nat
  button :: "bool \<Rightarrow> bool"

datatype widget = Preview | Warning | Story pystr pystr | Placeholder

datatype 'exc page_error = KeyError pystr | Raised 'exc

definition lang_tabs :: "pystr list" where
  "lang_tabs = [ascii ''English'', ascii ''Amharic'', ascii ''Chinese'']"

definition lang_map :: "(pystr \<times> pystr) list" where
  "lang_map = [(ascii ''English'', ascii ''English''), (ascii ''Amharic'', ascii ''Amharic''),
               (ascii ''Chinese'', ascii ''Chinese'')]"

text \<open>
  \<open>st.radio\<close> returns one of the options it was given: the one at the selected
  index, which the widget keeps within the options and which starts at the first. The
  script gives it the three languages.
\<close>

definition st_radio :: "pystr list \<Rightarrow> nat \<Rightarrow> pystr" where
  "st_radio options i = options ! (if i < length options then i else 0)"

text \<open>
  The script, in its order: the key is read (line 117) and configured when it is true;
  an upload is previewed with \<open>st.image\<close> (line 177); the radio, the button, the warning;
  then either the generation and the story or the placeholder. An exception ends the run
  where it is raised. The result is that exception, if any, the widgets written so far
  and the process state.
\<close>

definition run_page ::
  "('img, 'resp, 'exc) world \<Rightarrow> 'exc page_input \<Rightarrow> 'img process \<Rightarrow>
     'exc page_error option \<times> widget list \<times> 'img process"
where
  "run_page w inp s =
     (case secrets_get inp of
        Inl e \<Rightarrow> (Some (Raised e), [], s)
      | Inr api_key \<Rightarrow>
          (let s0 = (if truthy api_key then s\<lparr>configured := api_key\<rparr> else s)
           in case (case uploaded_file inp of None \<Rightarrow> None | Some f \<Rightarrow> st_image w f) of
                Some e \<Rightarrow> (Some (Raised e), [], s0)
              | None \<Rightarrow>
                  (let out1 = (if uploaded_file inp \<noteq> None then [Preview] else []);
                       selected_lang = st_radio lang_tabs (radio_index inp);
                       generate_clicked =
                         button inp (uploaded_file inp = None \<or> \<not> truthy api_key);
                       out2 = out1 @ (if \<not> truthy api_key then [Warning] else [])
                   in case uploaded_file inp of
                        Some image_bytes \<Rightarrow>
                          if generate_clicked \<and> truthy api_key then
                            (case map_of lang_map selected_lang of
                               None \<Rightarrow> (Some (KeyError selected_lang), out2, s0)
                             | Some language \<Rightarrow>
                                 (case generate_story_from_image w image_bytes language s0 of
                                    (Inl e, s1) \<Rightarrow> (Some (Raised e), out2, s1)
                                  | (Inr story_text, s1) \<Rightarrow>
                                      (None, out2 @ [Story selected_lang story_text], s1)))
                          else (None, out2 @ [Placeholder], s0)
                      | None \<Rightarrow> (None, out2 @ [Placeholder], s0))))"

section \<open>Test doubles\<close>

text \<open>
  Python exceptions, by class and message; a one-pixel PNG file and a one-pixel GIF file;
  a decoder that knows these two files and raises on everything else it is given here.
\<close>

datatype pyexc = PyExc (exc_class: string) (exc_message: string)

definition png_signature :: bytes where
  "png_signature = [137, 80, 78, 71, 13, 10, 26, 10]"

definition pixel_png :: bytes where
  "pixel_png = png_signature @
     [0, 0, 0, 13, 73, 72, 68, 82, 0, 0, 0, 1, 0, 0, 0, 1, 8, 6, 0, 0, 0, 31, 21, 196, 137,
      0, 0, 0, 10, 73, 68, 65, 84, 120, 156, 99, 0, 1, 0, 0, 5, 0, 1, 13, 10, 45, 180,
      0, 0, 0, 0, 73, 69, 78, 68, 174, 66, 96, 130]"

definition pixel_gif :: bytes where
  "pixel_gif =
     [71, 73, 70, 56, 57, 97, 1, 0, 1, 0, 128, 0, 0, 0, 0, 0, 255, 255, 255, 33, 249, 4, 1,
      0, 0, 0, 0, 44, 0, 0, 0, 0, 1, 0, 1, 0, 0, 2, 2, 68, 1, 0, 59]"

definition unidentified :: pyexc where
  "unidentified = PyExc ''UnidentifiedImageError'' ''cannot identify image file''"

definition open_stub :: "bytes \<Rightarrow> pyexc + bytes" where
  "open_stub b = (if b = pixel_png \<or> b = pixel_gif then Inr b else Inl unidentified)"

definition format_stub :: "bytes \<Rightarrow> pystr" where
  "format_stub img = (if take 8 img = png_signature then ascii ''PNG'' else ascii ''GIF'')"

text \<open>
  Three doubles of the model. The first answers every call with a fixed text, whatever
  is configured. The second does what the Google client does about the key: with none
  configured it raises before anything is sent, with one it answers. The third raises
  on every call, as a transport that runs past its deadline.
\<close>

definition stub_world :: "pystr \<Rightarrow> (bytes, pystr, pyexc) world" where
  "stub_world reply =
     \<lparr>image_open = open_stub,
      image_format = format_stub,
      image_load = (\<lambda>img. None),
      st_image = (\<lambda>b. case open_stub b of Inl e \<Rightarrow> Some e | Inr img \<Rightarrow> None),
      generate_content = (\<lambda>key history c. Inr reply),
      requests_sent = (\<lambda>key history c. 1),
      response_text = (\<lambda>r. Inr r)\<rparr>"

definition client_world :: "pystr \<Rightarrow> (bytes, pystr, pyexc) world" where
  "client_world reply =
     (stub_world reply)
       \<lparr>generate_content :=
          (\<lambda>key history c. case key of
             None \<Rightarrow> Inl (PyExc ''DefaultCredentialsError'' ''credentials were not found'')
           | Some k \<Rightarrow> Inr reply),
        requests_sent := (\<lambda>key history c. case key of None \<Rightarrow> 0 | Some k \<Rightarrow> 1)\<rparr>"

definition timeout_world :: "(bytes, pystr, pyexc) world" where
  "timeout_world =
     (stub_world [])
       \<lparr>generate_content :=
          (\<lambda>key history c. Inl (PyExc ''DeadlineExceeded'' ''504 Deadline Exceeded''))\<rparr>"

text \<open>
  A run in which the secrets are readable and the user presses the button whenever it
  is enabled.
\<close>

definition clicking :: "pystr option \<Rightarrow> bytes option \<Rightarrow> nat \<Rightarrow> pyexc page_input" where
  "clicking k f i =
     \<lparr>secrets_get = Inr k, uploaded_file = f, radio_index = i,
      button = (\<lambda>disabled. \<not> disabled)\<rparr>"

section \<open>Facts shared by the proofs\<close>

lemma get_story_model_calls: "calls (snd (get_story_model s)) = calls s"
  by (simp add: get_story_model_def Let_def split: option.splits)

lemma get_story_model_configured: "configured (snd (get_story_model s)) = configured s"
  by (simp add: get_story_model_def Let_def split: option.splits)

lemma get_story_model_network: "network_calls (snd (get_story_model s)) = network_calls s"
  by (simp add: get_story_model_def Let_def split: option.splits)

lemma open_stub_pixel: "open_stub pixel_png = Inr pixel_png"
  by (simp add: open_stub_def)


lemma open_stub_bad: "open_stub [1, 2, 3] = Inl unidentified"
  by (simp add: open_stub_def pixel_png_def png_signature_def pixel_gif_def)

lemma stub_open_pixel: "image_open (stub_world r) pixel_png = Inr pixel_png"
  by (simp add: stub_world_def open_stub_pixel)


lemma stub_image_bad: "st_image (stub_world r) [1, 2, 3] = Some unidentified"
  by (simp add: stub_world_def open_stub_bad)

lemma stub_image_pixel: "st_image (stub_world r) pixel_png = None"
  by (simp add: stub_world_def open_stub_pixel)

lemma client_open_pixel: "image_open (client_world r) pixel_png = Inr pixel_png"
  by (simp add: client_world_def stub_world_def open_stub_pixel)


lemma client_open_bad: "image_open (client_world r) [1, 2, 3] = Inl unidentified"
  by (simp add: client_world_def stub_world_def open_stub_bad)

lemma timeout_open_pixel: "image_open timeout_world pixel_png = Inr pixel_png"
  by (simp add: timeout_world_def stub_world_def open_stub_pixel)


lemma strip_plain: "strip (ascii ''story'') = ascii ''story''"
  by (simp add: strip_def ascii_def isspace_def)

lemma generate_story_open_raises:
  "image_open w image_bytes = Inl e \<Longrightarrow>
   generate_story_from_image w image_bytes language s = (Inl e, snd (get_story_model s))"
  by (simp add: generate_story_from_image_def Let_def case_prod_beta)

lemma generate_story_calls:
  "image_open w image_bytes = Inr img \<Longrightarrow>
   calls (snd (generate_story_from_image w image_bytes language s)) =
     calls s @ [\<lparr>call_handle = fst (get_story_model s), call_prompt = story_prompt language,
                 call_image = img, call_timeout = 120\<rparr>]"
  by (simp add: generate_story_from_image_def Let_def case_prod_beta get_story_model_calls
      split: sum.splits)

lemma generate_story_network:
  "image_open w image_bytes = Inr img \<Longrightarrow>
   network_calls (snd (generate_story_from_image w image_bytes language s)) =
     network_calls s +
     requests_sent w (configured s) (calls s)
       \<lparr>call_handle = fst (get_story_model s), call_prompt = story_prompt language,
        call_image = img, call_timeout = 120\<rparr>"
  by (simp add: generate_story_from_image_def Let_def case_prod_beta get_story_model_calls
      get_story_model_configured get_story_model_network split: sum.splits)

lemma generate_story_result:
  "image_open w image_bytes = Inr img \<Longrightarrow>
   fst (generate_story_from_image w image_bytes language s) =
     (case generate_content w (configured s) (calls s)
             \<lparr>call_handle = fst (get_story_model s), call_prompt = story_prompt language,
              call_image = img, call_timeout = 120\<rparr> of
        Inl e \<Rightarrow> Inl e
      | Inr response \<Rightarrow>
          (case response_text w response of Inl e \<Rightarrow> Inl e | Inr t \<Rightarrow> Inr (strip t)))"
  by (simp add: generate_story_from_image_def Let_def case_prod_beta get_story_model_calls
      get_story_model_configured split: sum.splits)


lemma rev_split_at_end:
  "xs = rev (dropWhile P (rev xs)) @ rev (takeWhile P (rev xs))"
  by (metis rev_append rev_rev_ident takeWhile_dropWhile_id)

lemma strip_suffix:
  "dropWhile isspace t = strip t @ rev (takeWhile isspace (rev (dropWhile isspace t)))"
  unfolding strip_def by (rule rev_split_at_end)

lemma strip_decompose:
  "\<exists>pre suf. t = pre @ strip t @ suf \<and> list_all isspace pre \<and> list_all isspace suf"
proof -
  let ?suf = "rev (takeWhile isspace (rev (dropWhile isspace t)))"
  have "t = takeWhile isspace t @ dropWhile isspace t"
    by simp
  then have t: "t = takeWhile isspace t @ strip t @ ?suf"
    using strip_suffix [of t] by simp
  have p: "list_all isspace (takeWhile isspace t)"
    by (simp add: list_all_iff) (meson set_takeWhileD)
  have q: "list_all isspace ?suf"
    by (simp add: list_all_iff) (meson set_takeWhileD)
  from t p q show ?thesis by blast
qed

lemma strip_last: "strip t \<noteq> [] \<Longrightarrow> \<not> isspace (last (strip t))"
  by (simp add: strip_def last_rev hd_dropWhile)

lemma strip_hd:
  assumes "strip t \<noteq> []"
  shows "\<not> isspace (hd (strip t))"
proof -
  have "dropWhile isspace t = [] \<Longrightarrow> strip t = []"
    by (auto simp: strip_def dest: set_dropWhileD)
  with assms have ne: "dropWhile isspace t \<noteq> []"
    by blast
  then have "\<not> isspace (hd (dropWhile isspace t))"
    by (rule hd_dropWhile)
  moreover from assms strip_suffix [of t] have "hd (dropWhile isspace t) = hd (strip t)"
    by (metis hd_append2)
  ultimately show ?thesis by simp
qed

lemma strip_empty_iff: "strip t = [] \<longleftrightarrow> list_all isspace t"
proof
  assume "strip t = []"
  then have "\<forall>x \<in> set (dropWhile isspace t). isspace x"
    by (simp add: strip_def)
  then have "dropWhile isspace t = []"
    by (metis hd_dropWhile hd_in_set)
  then show "list_all isspace t"
    by (simp add: list_all_iff)
next
  assume "list_all isspace t"
  then show "strip t = []"
    by (auto simp: strip_def list_all_iff dest: set_dropWhileD)
qed

lemma strip_story: "strip (ascii ''A lonely pixel dreamed of color.'') = ascii ''A lonely pixel dreamed of color.''"
  by (simp add: strip_def ascii_def isspace_def)






lemma st_radio_member: "st_radio lang_tabs i \<in> set lang_tabs"
  unfolding st_radio_def by (rule nth_mem) (simp add: lang_tabs_def)

lemma lang_map_lookup:
  "map_of lang_map l = (if l \<in> set lang_tabs then Some l else None)"
  by (simp add: lang_map_def lang_tabs_def)

lemma lang_map_radio: "map_of lang_map (st_radio lang_tabs i) = Some (st_radio lang_tabs i)"
  by (simp add: lang_map_lookup st_radio_member)

lemma run_page_secrets_raise:
  "secrets_get inp = Inl e \<Longrightarrow> run_page w inp s = (Some (Raised e), [], s)"
  by (simp add: run_page_def)

lemma run_page_image_raises:
  assumes "secrets_get inp = Inr k" and "uploaded_file inp = Some f" and "st_image w f = Some e"
  shows "run_page w inp s =
           (Some (Raised e), [], if truthy k then s\<lparr>configured := k\<rparr> else s)"
  using assms by (simp add: run_page_def Let_def)

lemma run_page_inert:
  assumes "secrets_get inp = Inr k"
    and "\<forall>f. uploaded_file inp = Some f \<longrightarrow> st_image w f = None"
    and "uploaded_file inp = None \<or> \<not> truthy k \<or> \<not> button inp False"
  shows "run_page w inp s =
           (None,
            (if uploaded_file inp \<noteq> None then [Preview] else []) @
            (if \<not> truthy k then [Warning] else []) @ [Placeholder],
            if truthy k then s\<lparr>configured := k\<rparr> else s)"
  using assms by (auto simp: run_page_def Let_def split: option.splits)

lemma run_page_generates:
  assumes "secrets_get inp = Inr k" and "truthy k"
    and "uploaded_file inp = Some f" and "st_image w f = None" and "button inp False"
  shows "run_page w inp s =
           (case generate_story_from_image w f (st_radio lang_tabs (radio_index inp))
                   (s\<lparr>configured := k\<rparr>) of
              (Inl e, s1) \<Rightarrow> (Some (Raised e), [Preview], s1)
            | (Inr story_text, s1) \<Rightarrow>
                (None, [Preview, Story (st_radio lang_tabs (radio_index inp)) story_text], s1))"
  using assms by (simp add: run_page_def Let_def lang_map_radio split: prod.splits sum.splits)

section \<open>Empty and blank responses\<close>

text \<open>
  Claim C1, as stated, fails: a response made of two spaces is returned as the story
  \<open>""\<close>, a success, for the supported language English and an image that opens.
\<close>

theorem blank_response_counterexample:
  "image_open (stub_world (ascii ''  '')) pixel_png = Inr pixel_png \<and>
   fst (generate_story_from_image (stub_world (ascii ''  '')) pixel_png (ascii ''English'')
          fresh) = Inr []"
  by (simp add: generate_story_result stub_open_pixel)
     (simp add: stub_world_def strip_def ascii_def isspace_def)

text \<open>
  Claim C1, amended. For every language and every image that opens, the request ends in
  one of two ways. Either it fails with the exception raised by the call to the model or
  by reading the text of its response; or it returns the text of the response stripped,
  which is the empty string exactly when the response is empty or all whitespace, and
  which otherwise neither starts nor ends with whitespace.
\<close>

theorem story_or_failure:
  assumes "image_open w image_bytes = Inr img"
  shows "case fst (generate_story_from_image w image_bytes language s) of
           Inl e \<Rightarrow>
             (let r = generate_content w (configured s) (calls s)
                        \<lparr>call_handle = fst (get_story_model s),
                         call_prompt = story_prompt language,
                         call_image = img, call_timeout = 120\<rparr>
              in r = Inl e \<or> (\<exists>response. r = Inr response \<and> response_text w response = Inl e))
         | Inr story \<Rightarrow>
             (\<exists>response t.
                generate_content w (configured s) (calls s)
                  \<lparr>call_handle = fst (get_story_model s), call_prompt = story_prompt language,
                   call_image = img, call_timeout = 120\<rparr> = Inr response \<and>
                response_text w response = Inr t \<and> story = strip t \<and>
                (story = [] \<longleftrightarrow> list_all isspace t) \<and>
                (story \<noteq> [] \<longrightarrow> \<not> isspace (hd story) \<and> \<not> isspace (last story)))"
  using assms
  by (auto simp: generate_story_result Let_def strip_empty_iff strip_hd strip_last
      split: sum.splits)

theorem story_or_failure_witness:
  "image_open (stub_world (ascii '' Once. '')) pixel_png = Inr pixel_png \<and>
   fst (generate_story_from_image (stub_world (ascii '' Once. '')) pixel_png (ascii ''Amharic'')
          fresh) = Inr (ascii ''Once.'')"
proof -
  have s: "strip (ascii '' Once. '') = ascii ''Once.''"
    by (simp add: strip_def ascii_def isspace_def)
  have g: "generate_content (stub_world (ascii '' Once. '')) k h c = Inr (ascii '' Once. '')"
    for k h c
    by (simp add: stub_world_def)
  have t: "response_text (stub_world (ascii '' Once. '')) r = Inr r" for r
    by (simp add: stub_world_def)
  show ?thesis
    using story_or_failure [OF stub_open_pixel, where language = "ascii ''Amharic''"
        and s = fresh and ?r1 = "ascii '' Once. ''"]
    by (auto simp: stub_open_pixel g t s split: sum.splits)
qed

section \<open>The story returned on success\<close>

text \<open>
  Claim C8. When the image opens, the call returns a response and the response has a
  text, the request returns that text stripped: the text is the result with whitespace
  only before and after it, and the result neither starts nor ends with whitespace. For
  the text "A lonely pixel dreamed of color." the result is exactly that string.
\<close>

theorem success_returns_stripped_text:
  assumes "image_open w image_bytes = Inr img"
    and "generate_content w (configured s) (calls s)
           \<lparr>call_handle = fst (get_story_model s), call_prompt = story_prompt language,
            call_image = img, call_timeout = 120\<rparr> = Inr response"
    and "response_text w response = Inr t"
  shows "fst (generate_story_from_image w image_bytes language s) = Inr (strip t) \<and>
         (\<exists>pre suf. t = pre @ strip t @ suf \<and> list_all isspace pre \<and> list_all isspace suf) \<and>
         (strip t \<noteq> [] \<longrightarrow> \<not> isspace (hd (strip t)) \<and> \<not> isspace (last (strip t))) \<and>
         (t = ascii ''A lonely pixel dreamed of color.'' \<longrightarrow>
            fst (generate_story_from_image w image_bytes language s) =
              Inr (ascii ''A lonely pixel dreamed of color.''))"
  using assms strip_decompose [of t]
  by (simp add: generate_story_result strip_hd strip_last strip_story)

theorem success_returns_stripped_text_witness:
  "image_open (stub_world (ascii ''A lonely pixel dreamed of color.'')) pixel_png =
     Inr pixel_png \<and>
   fst (generate_story_from_image (stub_world (ascii ''A lonely pixel dreamed of color.''))
          pixel_png (ascii ''English'') fresh) = Inr (ascii ''A lonely pixel dreamed of color.'')"
proof -
  let ?w = "stub_world (ascii ''A lonely pixel dreamed of color.'')"
  have g: "generate_content ?w k h c = Inr (ascii ''A lonely pixel dreamed of color.'')"
    for k h c
    by (simp add: stub_world_def)
  have t: "response_text ?w (ascii ''A lonely pixel dreamed of color.'') =
             Inr (ascii ''A lonely pixel dreamed of color.'')"
    by (simp add: stub_world_def)
  show ?thesis
    using success_returns_stripped_text [OF stub_open_pixel g t,
        where language = "ascii ''English''" and s = fresh]
      stub_open_pixel [of "ascii ''A lonely pixel dreamed of color.''"]
    by blast
qed

section \<open>Images that are not supported\<close>




section \<open>The call to the model\<close>

text \<open>
  Claim C5, as stated, fails: when the call runs past its deadline, the request does not
  end in a \<open>GenerationError\<close> that carries the cause. It ends in the exception of the
  library itself, here of class \<open>DeadlineExceeded\<close>, as it was raised.
\<close>

theorem raw_exception_counterexample:
  "image_open timeout_world pixel_png = Inr pixel_png \<and>
   fst (generate_story_from_image timeout_world pixel_png (ascii ''English'')
          (fresh\<lparr>configured := Some (ascii ''key'')\<rparr>)) =
     Inl (PyExc ''DeadlineExceeded'' ''504 Deadline Exceeded'') \<and>
   exc_class (PyExc ''DeadlineExceeded'' ''504 Deadline Exceeded'') \<noteq> ''GenerationError''"
  by (simp add: generate_story_result [OF timeout_open_pixel] timeout_open_pixel)
     (simp add: timeout_world_def)

text \<open>
  Claim C5, amended. Every request for which \<open>Image.open\<close> returns an image issues
  exactly one call to the model, with the prompt and the image as its input and a timeout
  of 120 seconds. When that call raises, or reading the text of its response raises, the
  request fails with that very exception, not wrapped in a \<open>GenerationError\<close>, and the
  call is not made again.
\<close>

theorem one_call_no_retry:
  assumes "image_open w image_bytes = Inr img"
  shows "calls (snd (generate_story_from_image w image_bytes language s)) =
           calls s @ [\<lparr>call_handle = fst (get_story_model s),
                       call_prompt = story_prompt language,
                       call_image = img, call_timeout = 120\<rparr>] \<and>
         (\<forall>e. generate_content w (configured s) (calls s)
                 \<lparr>call_handle = fst (get_story_model s), call_prompt = story_prompt language,
                  call_image = img, call_timeout = 120\<rparr> = Inl e \<longrightarrow>
              fst (generate_story_from_image w image_bytes language s) = Inl e) \<and>
         (\<forall>response e.
              generate_content w (configured s) (calls s)
                 \<lparr>call_handle = fst (get_story_model s), call_prompt = story_prompt language,
                  call_image = img, call_timeout = 120\<rparr> = Inr response \<and>
              response_text w response = Inl e \<longrightarrow>
              fst (generate_story_from_image w image_bytes language s) = Inl e)"
  using assms by (simp add: generate_story_calls generate_story_result)

theorem one_call_no_retry_witness:
  "image_open timeout_world pixel_png = Inr pixel_png \<and>
   fst (generate_story_from_image timeout_world pixel_png (ascii ''Chinese'')
          (fresh\<lparr>configured := Some (ascii ''key'')\<rparr>)) =
     Inl (PyExc ''DeadlineExceeded'' ''504 Deadline Exceeded'') \<and>
   map call_image (calls (snd (generate_story_from_image timeout_world pixel_png
     (ascii ''Chinese'') (fresh\<lparr>configured := Some (ascii ''key'')\<rparr>)))) = [pixel_png] \<and>
   map call_timeout (calls (snd (generate_story_from_image timeout_world pixel_png
     (ascii ''Chinese'') (fresh\<lparr>configured := Some (ascii ''key'')\<rparr>)))) = [120]"
proof -
  let ?s = "fresh\<lparr>configured := Some (ascii ''key'')\<rparr> :: bytes process"
  have g: "generate_content timeout_world k h c =
      Inl (PyExc ''DeadlineExceeded'' ''504 Deadline Exceeded'')" for k h c
    by (simp add: timeout_world_def)
  have f: "calls ?s = []"
    by (simp add: fresh_def)
  show ?thesis
    using one_call_no_retry [OF timeout_open_pixel, where language = "ascii ''Chinese''"
        and s = ?s] timeout_open_pixel
    by (simp add: g f)
qed

section \<open>The instruction\<close>





section \<open>The cached model handle\<close>


section \<open>The page\<close>

text \<open>
  Claim C9, as stated, fails: with no credential and an upload that \<open>st.image\<close> cannot
  show, here the bytes 1, 2, 3, the run ends at the preview with the exception of
  \<open>st.image\<close>, before the warning is written.
\<close>

theorem warning_missing_counterexample:
  "secrets_get (clicking None (Some [1, 2, 3]) 0) = Inr None \<and>
   run_page (stub_world (ascii ''story'')) (clicking None (Some [1, 2, 3]) 0) fresh =
     (Some (Raised (PyExc ''UnidentifiedImageError'' ''cannot identify image file'')), [],
      fresh) \<and>
   Warning \<notin> set (fst (snd (run_page (stub_world (ascii ''story''))
     (clicking None (Some [1, 2, 3]) 0) fresh)))"
proof -
  have i: "secrets_get (clicking None (Some [1, 2, 3]) 0) = Inr None"
    "uploaded_file (clicking None (Some [1, 2, 3]) 0) = Some [1, 2, 3]"
    by (simp_all add: clicking_def)
  have "run_page (stub_world (ascii ''story'')) (clicking None (Some [1, 2, 3]) 0) fresh =
     (Some (Raised (PyExc ''UnidentifiedImageError'' ''cannot identify image file'')), [],
      fresh)"
    using run_page_image_raises [OF i stub_image_bad, of "ascii ''story''" fresh]
    by (simp add: unidentified_def)
  with i(1) show ?thesis
    by simp
qed

text \<open>
  Claim C9, amended. A run of the page goes one of four ways, and only the last one
  reaches the generation. When reading the secrets raises, or \<open>st.image\<close> raises on the
  upload, the run ends there with that exception and has written nothing. When neither
  raises and there is no upload, or no credential, or the button was not pressed, the run
  writes the placeholder after the preview of an upload and after the warning, which is
  written exactly when the credential is missing; it ends without exception and has made
  no call. When neither raises and there are an upload, a credential and the button
  pressed, the run is the generation for that upload and the selected language.
\<close>

theorem generation_needs_image_and_key:
  "(\<forall>e. secrets_get inp = Inl e \<longrightarrow> run_page w inp s = (Some (Raised e), [], s)) \<and>
   (\<forall>k f e. secrets_get inp = Inr k \<and> uploaded_file inp = Some f \<and> st_image w f = Some e \<longrightarrow>
      run_page w inp s = (Some (Raised e), [], if truthy k then s\<lparr>configured := k\<rparr> else s)) \<and>
   (\<forall>k. secrets_get inp = Inr k \<and>
      (\<forall>f. uploaded_file inp = Some f \<longrightarrow> st_image w f = None) \<and>
      (uploaded_file inp = None \<or> \<not> truthy k \<or> \<not> button inp False) \<longrightarrow>
      run_page w inp s =
        (None,
         (if uploaded_file inp \<noteq> None then [Preview] else []) @
         (if \<not> truthy k then [Warning] else []) @ [Placeholder],
         if truthy k then s\<lparr>configured := k\<rparr> else s)) \<and>
   (\<forall>k f. secrets_get inp = Inr k \<and> truthy k \<and> uploaded_file inp = Some f \<and>
      st_image w f = None \<and> button inp False \<longrightarrow>
      run_page w inp s =
        (case generate_story_from_image w f (st_radio lang_tabs (radio_index inp))
                (s\<lparr>configured := k\<rparr>) of
           (Inl e, s1) \<Rightarrow> (Some (Raised e), [Preview], s1)
         | (Inr story_text, s1) \<Rightarrow>
             (None, [Preview, Story (st_radio lang_tabs (radio_index inp)) story_text], s1)))"
proof (intro conjI allI impI)
  fix e
  assume "secrets_get inp = Inl e"
  then show "run_page w inp s = (Some (Raised e), [], s)"
    by (rule run_page_secrets_raise)
next
  fix k f e
  assume "secrets_get inp = Inr k \<and> uploaded_file inp = Some f \<and> st_image w f = Some e"
  then show "run_page w inp s =
      (Some (Raised e), [], if truthy k then s\<lparr>configured := k\<rparr> else s)"
    by (simp add: run_page_image_raises)
next
  fix k
  assume "secrets_get inp = Inr k \<and>
      (\<forall>f. uploaded_file inp = Some f \<longrightarrow> st_image w f = None) \<and>
      (uploaded_file inp = None \<or> \<not> truthy k \<or> \<not> button inp False)"
  then show "run_page w inp s =
        (None,
         (if uploaded_file inp \<noteq> None then [Preview] else []) @
         (if \<not> truthy k then [Warning] else []) @ [Placeholder],
         if truthy k then s\<lparr>configured := k\<rparr> else s)"
    by (intro run_page_inert) blast+
next
  fix k f
  assume "secrets_get inp = Inr k \<and> truthy k \<and> uploaded_file inp = Some f \<and>
      st_image w f = None \<and> button inp False"
  then show "run_page w inp s =
        (case generate_story_from_image w f (st_radio lang_tabs (radio_index inp))
                (s\<lparr>configured := k\<rparr>) of
           (Inl e, s1) \<Rightarrow> (Some (Raised e), [Preview], s1)
         | (Inr story_text, s1) \<Rightarrow>
             (None, [Preview, Story (st_radio lang_tabs (radio_index inp)) story_text], s1))"
    by (intro run_page_generates) blast+
qed

theorem generation_needs_image_and_key_witness:
  "run_page (stub_world (ascii ''story'')) (clicking None (Some pixel_png) 0) fresh =
     (None, [Preview, Warning, Placeholder], fresh) \<and>
   run_page (stub_world (ascii ''story'')) (clicking (Some (ascii ''key'')) None 0) fresh =
     (None, [Placeholder], fresh\<lparr>configured := Some (ascii ''key'')\<rparr>) \<and>
   run_page (stub_world (ascii ''story'')) (clicking (Some (ascii ''key'')) (Some [1, 2, 3]) 0)
     fresh =
     (Some (Raised unidentified), [], fresh\<lparr>configured := Some (ascii ''key'')\<rparr>) \<and>
   fst (run_page (stub_world (ascii ''story''))
     (clicking (Some (ascii ''key'')) (Some pixel_png) 1) fresh) = None \<and>
   fst (snd (run_page (stub_world (ascii ''story''))
     (clicking (Some (ascii ''key'')) (Some pixel_png) 1) fresh)) =
     [Preview, Story (ascii ''Amharic'') (ascii ''story'')]"
proof -
  let ?w = "stub_world (ascii ''story'')"
  let ?s = "fresh\<lparr>configured := Some (ascii ''key'')\<rparr> :: bytes process"
  have k: "truthy (Some (ascii ''key''))"
    by (simp add: ascii_def)
  have r: "st_radio lang_tabs 1 = ascii ''Amharic''"
    by (simp add: st_radio_def lang_tabs_def)
  have f: "calls ?s = []" "configured ?s = Some (ascii ''key'')"
    by (simp_all add: fresh_def)
  have g: "generate_content ?w c h x = Inr (ascii ''story'')" for c h x
    by (simp add: stub_world_def)
  have t: "response_text ?w x = Inr x" for x
    by (simp add: stub_world_def)
  have story: "fst (generate_story_from_image ?w pixel_png (ascii ''Amharic'') ?s) =
      Inr (ascii ''story'')"
    by (simp add: generate_story_result [OF stub_open_pixel] g t strip_plain)
  have 1: "run_page ?w (clicking None (Some pixel_png) 0) fresh =
      (None, [Preview, Warning, Placeholder], fresh)"
    using generation_needs_image_and_key [of "clicking None (Some pixel_png) 0" ?w fresh]
    by (simp add: clicking_def stub_image_pixel)
  have 2: "run_page ?w (clicking (Some (ascii ''key'')) None 0) fresh = (None, [Placeholder], ?s)"
    using generation_needs_image_and_key [of "clicking (Some (ascii ''key'')) None 0" ?w fresh] k
    by (simp add: clicking_def)
  have 3: "run_page ?w (clicking (Some (ascii ''key'')) (Some [1, 2, 3]) 0) fresh =
      (Some (Raised unidentified), [], ?s)"
    using generation_needs_image_and_key
      [of "clicking (Some (ascii ''key'')) (Some [1, 2, 3]) 0" ?w fresh] k
    by (simp add: clicking_def stub_image_bad)
  have i: "secrets_get (clicking (Some (ascii ''key'')) (Some pixel_png) 1) =
      Inr (Some (ascii ''key''))"
    "uploaded_file (clicking (Some (ascii ''key'')) (Some pixel_png) 1) = Some pixel_png"
    "button (clicking (Some (ascii ''key'')) (Some pixel_png) 1) False"
    by (simp_all add: clicking_def)
  have j: "radio_index (clicking (Some (ascii ''key'')) (Some pixel_png) 1) = 1"
    by (simp add: clicking_def)
  have "run_page ?w (clicking (Some (ascii ''key'')) (Some pixel_png) 1) fresh =
      (case generate_story_from_image ?w pixel_png
              (st_radio lang_tabs (radio_index (clicking (Some (ascii ''key''))
                 (Some pixel_png) 1))) ?s of
         (Inl e, s1) \<Rightarrow> (Some (Raised e), [Preview], s1)
       | (Inr story_text, s1) \<Rightarrow>
           (None, [Preview, Story (st_radio lang_tabs (radio_index (clicking
              (Some (ascii ''key'')) (Some pixel_png) 1))) story_text], s1))"
    using generation_needs_image_and_key
      [of "clicking (Some (ascii ''key'')) (Some pixel_png) 1" ?w fresh] i k
      stub_image_pixel [of "ascii ''story''"]
    by blast
  then have 4: "run_page ?w (clicking (Some (ascii ''key'')) (Some pixel_png) 1) fresh =
      (case generate_story_from_image ?w pixel_png (ascii ''Amharic'') ?s of
         (Inl e, s1) \<Rightarrow> (Some (Raised e), [Preview], s1)
       | (Inr story_text, s1) \<Rightarrow> (None, [Preview, Story (ascii ''Amharic'') story_text], s1))"
    unfolding j r .
  from story have 5: "fst (run_page ?w (clicking (Some (ascii ''key'')) (Some pixel_png) 1) fresh)
      = None"
    and 6: "fst (snd (run_page ?w (clicking (Some (ascii ''key'')) (Some pixel_png) 1) fresh)) =
      [Preview, Story (ascii ''Amharic'') (ascii ''story'')]"
    unfolding 4 by (auto split: prod.splits sum.splits)
  from 1 2 3 5 6 show ?thesis
    by blast
qed

section \<open>The credential\<close>

text \<open>
  Claim C2, as stated, fails: called with no credential configured,
  \<open>generate_story_from_image\<close> returns no \<open>ConfigurationError\<close>. On an image that opens
  it calls \<open>generate_content\<close> all the same, and the request fails with what the client
  raises, of class \<open>DefaultCredentialsError\<close>; on bytes that do not open it fails with
  the exception of the decoder, which is not about the credential at all.
\<close>

theorem no_credential_counterexample:
  "configured (fresh :: bytes process) = None \<and>
   fst (generate_story_from_image (client_world (ascii ''story'')) pixel_png
          (ascii ''English'') fresh) =
     Inl (PyExc ''DefaultCredentialsError'' ''credentials were not found'') \<and>
   exc_class (PyExc ''DefaultCredentialsError'' ''credentials were not found'') \<noteq>
     ''ConfigurationError'' \<and>
   length (calls (snd (generate_story_from_image (client_world (ascii ''story'')) pixel_png
          (ascii ''English'') fresh))) = 1 \<and>
   fst (generate_story_from_image (client_world (ascii ''story'')) [1, 2, 3]
          (ascii ''English'') fresh) =
     Inl (PyExc ''UnidentifiedImageError'' ''cannot identify image file'') \<and>
   exc_class (PyExc ''UnidentifiedImageError'' ''cannot identify image file'') \<noteq>
     ''ConfigurationError''"
proof -
  let ?w = "client_world (ascii ''story'')"
  have f: "configured (fresh :: bytes process) = None" "calls (fresh :: bytes process) = []"
    by (simp_all add: fresh_def)
  have g: "generate_content ?w None h c =
      Inl (PyExc ''DefaultCredentialsError'' ''credentials were not found'')" for h c
    by (simp add: client_world_def)
  have 1: "fst (generate_story_from_image ?w pixel_png (ascii ''English'') fresh) =
      Inl (PyExc ''DefaultCredentialsError'' ''credentials were not found'')"
    by (simp add: generate_story_result [OF client_open_pixel] f g)
  have 2: "length (calls (snd (generate_story_from_image ?w pixel_png (ascii ''English'')
      fresh))) = 1"
    by (simp add: generate_story_calls [OF client_open_pixel] f)
  have 3: "fst (generate_story_from_image ?w [1, 2, 3] (ascii ''English'') fresh) =
      Inl (PyExc ''UnidentifiedImageError'' ''cannot identify image file'')"
    by (simp add: generate_story_open_raises [OF client_open_bad] unidentified_def)
  from f(1) 1 2 3 show ?thesis
    by simp
qed

text \<open>
  Claim C2, amended. \<open>generate_story_from_image\<close> makes no check of the credential and
  has no \<open>ConfigurationError\<close> of its own. With none configured it still opens the image;
  when that raises, the request fails with the exception of the decoder and nothing is
  put on the network; when it returns, the function calls \<open>generate_content\<close> once, the
  request ends as that call ends, and what is put on the network is what the library
  puts there during that call. So the request performs zero network calls whenever the
  library sends nothing without a credential. In the page, a run that reads no credential
  (none, or an empty one) and whose upload, if any, \<open>st.image\<close> accepts, writes the
  warning and the placeholder and leaves the process as it was: it makes no call.
\<close>

theorem credential_left_to_library:
  assumes "configured s = None"
  shows "(\<forall>e. image_open w image_bytes = Inl e \<longrightarrow>
            fst (generate_story_from_image w image_bytes language s) = Inl e \<and>
            network_calls (snd (generate_story_from_image w image_bytes language s)) =
              network_calls s) \<and>
         (\<forall>img. image_open w image_bytes = Inr img \<longrightarrow>
            calls (snd (generate_story_from_image w image_bytes language s)) =
              calls s @ [\<lparr>call_handle = fst (get_story_model s),
                          call_prompt = story_prompt language,
                          call_image = img, call_timeout = 120\<rparr>] \<and>
            fst (generate_story_from_image w image_bytes language s) =
              (case generate_content w None (calls s)
                      \<lparr>call_handle = fst (get_story_model s),
                       call_prompt = story_prompt language,
                       call_image = img, call_timeout = 120\<rparr> of
                 Inl e \<Rightarrow> Inl e
               | Inr response \<Rightarrow>
                   (case response_text w response of
                      Inl e \<Rightarrow> Inl e
                    | Inr t \<Rightarrow> Inr (strip t))) \<and>
            network_calls (snd (generate_story_from_image w image_bytes language s)) =
              network_calls s +
              requests_sent w None (calls s)
                \<lparr>call_handle = fst (get_story_model s), call_prompt = story_prompt language,
                 call_image = img, call_timeout = 120\<rparr>) \<and>
         ((\<forall>history c. requests_sent w None history c = 0) \<longrightarrow>
            network_calls (snd (generate_story_from_image w image_bytes language s)) =
              network_calls s) \<and>
         (\<forall>k. secrets_get inp = Inr k \<and> \<not> truthy k \<and>
            (\<forall>f. uploaded_file inp = Some f \<longrightarrow> st_image w f = None) \<longrightarrow>
            run_page w inp s =
              (None,
               (if uploaded_file inp \<noteq> None then [Preview] else []) @ [Warning, Placeholder],
               s))"
proof (intro conjI allI impI)
  fix e
  assume "image_open w image_bytes = Inl e"
  then show "fst (generate_story_from_image w image_bytes language s) = Inl e"
    and "network_calls (snd (generate_story_from_image w image_bytes language s)) =
      network_calls s"
    by (simp_all add: generate_story_open_raises get_story_model_network)
next
  fix img
  assume o: "image_open w image_bytes = Inr img"
  show "calls (snd (generate_story_from_image w image_bytes language s)) =
      calls s @ [\<lparr>call_handle = fst (get_story_model s), call_prompt = story_prompt language,
                  call_image = img, call_timeout = 120\<rparr>]"
    using o by (rule generate_story_calls)
  show "fst (generate_story_from_image w image_bytes language s) =
      (case generate_content w None (calls s)
              \<lparr>call_handle = fst (get_story_model s), call_prompt = story_prompt language,
               call_image = img, call_timeout = 120\<rparr> of
         Inl e \<Rightarrow> Inl e
       | Inr response \<Rightarrow>
           (case response_text w response of Inl e \<Rightarrow> Inl e | Inr t \<Rightarrow> Inr (strip t)))"
    using generate_story_result [OF o, of language s] assms by simp
  show "network_calls (snd (generate_story_from_image w image_bytes language s)) =
      network_calls s +
      requests_sent w None (calls s)
        \<lparr>call_handle = fst (get_story_model s), call_prompt = story_prompt language,
         call_image = img, call_timeout = 120\<rparr>"
    using generate_story_network [OF o, of language s] assms by simp
next
  assume z: "\<forall>history c. requests_sent w None history c = 0"
  show "network_calls (snd (generate_story_from_image w image_bytes language s)) =
      network_calls s"
  proof (cases "image_open w image_bytes")
    case (Inl e)
    then show ?thesis
      by (simp add: generate_story_open_raises get_story_model_network)
  next
    case (Inr img)
    then show ?thesis
      using generate_story_network [OF Inr, of language s] assms z by simp
  qed
next
  fix k
  assume "secrets_get inp = Inr k \<and> \<not> truthy k \<and>
      (\<forall>f. uploaded_file inp = Some f \<longrightarrow> st_image w f = None)"
  then show "run_page w inp s =
      (None, (if uploaded_file inp \<noteq> None then [Preview] else []) @ [Warning, Placeholder], s)"
    using run_page_inert [of inp k w s] by simp
qed

theorem credential_left_to_library_witness:
  "configured (fresh :: bytes process) = None \<and>
   network_calls (snd (generate_story_from_image (client_world (ascii ''story'')) pixel_png
     (ascii ''English'') fresh)) = 0 \<and>
   run_page (client_world (ascii ''story'')) (clicking (Some []) (Some pixel_png) 0) fresh =
     (None, [Preview, Warning, Placeholder], fresh)"
proof -
  let ?w = "client_world (ascii ''story'')"
  let ?inp = "clicking (Some []) (Some pixel_png) 0"
  have f: "configured (fresh :: bytes process) = None" "network_calls (fresh :: bytes process) = 0"
    by (simp_all add: fresh_def)
  have z: "\<forall>history c. requests_sent ?w None history c = 0"
    by (simp add: client_world_def)
  have i: "secrets_get ?inp = Inr (Some [])" "uploaded_file ?inp = Some pixel_png"
    by (simp_all add: clicking_def)
  have v: "st_image ?w pixel_png = None"
    by (simp add: client_world_def stub_image_pixel)
  from credential_left_to_library [OF f(1), where w = ?w and image_bytes = pixel_png
      and language = "ascii ''English''" and inp = ?inp] z f i v
  show ?thesis
    by simp
qed

section \<open>The language\<close>




end
